theory Spec2Isabelle
  imports Main
begin

section \<open>Data model\<close>

text \<open>
  Identifiers are MongoDB ObjectIds, handled everywhere through their hexadecimal
  string form (\<open>_id.toString()\<close>). A request parameter that does not cast to an
  ObjectId makes the driver throw as soon as it is looked up; such parameters are
  outside this development.
\<close>

type_synonym oid = string

text \<open>\<open>TUserRole = 'admin' | 'manager' | 'member'\<close> (interfaces/user.interface.ts).\<close>

datatype TUserRole = Admin | Manager | Member

fun role_str :: "TUserRole \<Rightarrow> string" where
  "role_str Admin = ''admin''"
| "role_str Manager = ''manager''"
| "role_str Member = ''member''"

text \<open>
  \<open>IUserResponse\<close>, the identity attached to a request, and the user document of the
  datastore share the fields the access-control code reads; time stamps and the
  password hash are left out.
\<close>

record IUser =
  u_id :: oid
  username :: string
  email :: string
  role :: TUserRole
  professionRoleType :: "string option"

text \<open>A project document: only the fields the access checks and membership handlers touch.\<close>

record IProject =
  p_id :: oid
  createdBy :: oid
  members :: "oid list"

record ITask =
  t_id :: oid
  project :: oid

subsection \<open>The cache store\<close>

text \<open>
  The Redis client of config/redis.config.ts, restricted to the three commands the
  handlers issue: \<open>get\<close>, \<open>set\<close> with the \<open>EX\<close> option, and \<open>del\<close>. An entry
  remembers the \<open>EX\<close> value it was written with and the time of the write; it is
  visible until that many seconds have passed. \<open>del\<close> sends the Redis command DEL,
  which removes the key of exactly the given name: a \<open>*\<close> in the name is an ordinary
  character, not a pattern. When the store is unreachable every command rejects.
\<close>

record entry =
  stored :: string
  ex :: int
  set_at :: int

record redis =
  reachable :: bool
  entries :: "string \<rightharpoonup> entry"

datatype exn =
    ClientClosedError
  | ReplyError
  | TypeError
  | MissingSchemaError
  | Error
  | TokenExpiredError
  | JsonWebTokenError

definition redis_get :: "redis \<Rightarrow> int \<Rightarrow> string \<Rightarrow> exn + string option" where
  "redis_get r now k =
     (if \<not> reachable r then Inl ClientClosedError
      else Inr (case entries r k of
                  None \<Rightarrow> None
                | Some e \<Rightarrow> if now < set_at e + ex e then Some (stored e) else None))"

definition redis_set :: "redis \<Rightarrow> int \<Rightarrow> string \<Rightarrow> string \<Rightarrow> int \<Rightarrow> exn + redis" where
  "redis_set r now k v ttl =
     (if \<not> reachable r then Inl ClientClosedError
      else if ttl \<le> 0 then Inl ReplyError
      else Inr (r\<lparr>entries := (entries r)(k \<mapsto> \<lparr>stored = v, ex = ttl, set_at = now\<rparr>)\<rparr>))"

definition redis_del :: "redis \<Rightarrow> string \<Rightarrow> exn + redis" where
  "redis_del r k =
     (if \<not> reachable r then Inl ClientClosedError
      else Inr (r\<lparr>entries := (entries r)(k := None)\<rparr>))"

subsection \<open>The datastore and the server state\<close>

text \<open>
  The datastore is three collections keyed by \<open>_id\<close>. Every read sent to it is
  recorded, in order; a write shows in the collection itself.
\<close>

datatype query =
    Project_findById oid
  | Task_findOne oid oid
  | User_findById oid

record state =
  cache :: redis
  projects :: "oid \<rightharpoonup> IProject"
  tasks :: "oid \<rightharpoonup> ITask"
  users :: "oid \<rightharpoonup> IUser"
  queries :: "query list"

subsection \<open>Requests and outcomes\<close>

text \<open>
  The \<open>CustomRequest\<close> fields the middleware reads and writes
  (interfaces/custom-request.interface.ts): the Authorization header, the route
  parameters, the \<open>userId\<close> of the body, and the properties attached on the way.
\<close>

record request =
  authorization :: "string option"
  projectId :: oid
  taskId :: oid
  memberId :: oid
  userId :: oid
  user :: "IUser option"
  token :: "string option"
  projectDocument :: "IProject option"
  userDocument :: "IUser option"
  userToAdd :: "IUser option"
  task :: "ITask option"

text \<open>
  A middleware either answers (status code and the \<open>message\<close> field of the JSON body,
  empty when the body has none) or calls \<open>next()\<close> with the request as it now is.
\<close>

datatype outcome = Respond nat string | Next request

section \<open>Access checks (middleware/project.middleware.ts, middleware/task.middleware.ts)\<close>

text \<open>\<open>req.user?._id\<close> inside a template string: \<open>undefined\<close> prints as such.\<close>

definition userId_str :: "request \<Rightarrow> string" where
  "userId_str req = (case user req of None \<Rightarrow> ''undefined'' | Some u \<Rightarrow> u_id u)"

definition project_cacheKey :: "request \<Rightarrow> string" where
  "project_cacheKey req = ''project:'' @ projectId req @ '':user:'' @ userId_str req"

text \<open>
  \<open>project.members.includes(new mongoose.Types.ObjectId(userId))\<close>: a Mongoose array
  compares ObjectIds by value, so this is membership of the id in the list; with no
  identity attached the constructor makes a fresh id, which is in no list. The owner
  field \<open>createdBy\<close> is not read here.
\<close>

definition validateProjectAccess ::"state \<Rightarrow> int \<Rightarrow> request \<Rightarrow> outcome \<times> state" where
  "validateProjectAccess s now req =
     (let cacheKey = project_cacheKey req in
      case redis_get (cache s) now cacheKey of
        Inl e \<Rightarrow> (Respond 500 ''Error validating project access'', s)
      | Inr cachedAccess \<Rightarrow>
          if cachedAccess = Some ''true'' then (Next req, s)
          else if cachedAccess = Some ''false'' then (Respond 403 ''Access denied to project'', s)
          else
            let s1 = s\<lparr>queries := queries s @ [Project_findById (projectId req)]\<rparr> in
            (case projects s (projectId req) of
               None \<Rightarrow> (Respond 404 ''Project not found'', s1)
             | Some proj \<Rightarrow>
                 let hasAccess = (case user req of
                                    None \<Rightarrow> False
                                  | Some u \<Rightarrow> u_id u \<in> set (members proj)) in
                 (case redis_set (cache s1) now cacheKey
                         (if hasAccess then ''true'' else ''false'') 3600 of
                    Inl e \<Rightarrow> (Respond 500 ''Error validating project access'', s1)
                  | Inr c \<Rightarrow>
                      let s2 = s1\<lparr>cache := c\<rparr> in
                      if \<not> hasAccess then (Respond 403 ''Access denied to project'', s2)
                      else (Next (req\<lparr>projectDocument := Some proj\<rparr>), s2))))"

definition task_cacheKey :: "request \<Rightarrow> string" where
  "task_cacheKey req = ''task:'' @ taskId req @ '':user:'' @ userId_str req"

text \<open>
  \<open>Task.findOne({ _id: taskId, project: projectId }).populate('project', 'createdBy members')\<close>.
  A query that finds no task has nothing to populate and yields \<open>null\<close>. For a task
  that is found, \<open>populate\<close> must resolve the reference of the \<open>project\<close> path: the
  task schema declares it with \<open>ref: 'Project'\<close>, while the models are registered under
  the names \<open>'tasks'\<close>, \<open>'projects'\<close> and \<open>'users'\<close> (models/task.model.ts,
  models/project.model.ts, models/user.model.ts). No model is called \<open>'Project'\<close>, so
  Mongoose throws \<open>MissingSchemaError\<close>, whatever the task and the datastore.
\<close>

definition populate_project :: "state \<Rightarrow> ITask \<Rightarrow> exn + ITask \<times> IProject option" where
  "populate_project s t = Inl MissingSchemaError"

text \<open>
  The task check. The lines after the query are kept as the source has them; reading
  \<open>task.project.createdBy\<close> of a \<open>null\<close> project would throw as well.
\<close>

definition validateTaskAccess :: "state \<Rightarrow> int \<Rightarrow> request \<Rightarrow> outcome \<times> state" where
  "validateTaskAccess s now req =
     (case user req of
        None \<Rightarrow> (Respond 401 ''Unauthorized'', s)
      | Some u \<Rightarrow>
          if u_id u = [] then (Respond 401 ''Unauthorized'', s)
          else
            let cacheKey = task_cacheKey req in
            (case redis_get (cache s) now cacheKey of
               Inl e \<Rightarrow> (Respond 500 ''Error validating task access'', s)
             | Inr cachedAccess \<Rightarrow>
                 if cachedAccess = Some ''true'' then (Next req, s)
                 else if cachedAccess = Some ''false'' then (Respond 403 ''Access denied to task'', s)
                 else
                   let s1 = s\<lparr>queries := queries s @ [Task_findOne (taskId req) (projectId req)]\<rparr> in
                   (case tasks s (taskId req) of
                      None \<Rightarrow> (Respond 404 ''Task not found'', s1)
                    | Some t \<Rightarrow>
                        if project t \<noteq> projectId req then (Respond 404 ''Task not found'', s1)
                        else
                          (case populate_project s t of
                             Inl e \<Rightarrow> (Respond 500 ''Error validating task access'', s1)
                           | Inr (populated, None) \<Rightarrow>
                               (Respond 500 ''Error validating task access'', s1)
                           | Inr (populated, Some proj) \<Rightarrow>
                               let hasAccess =
                                     (createdBy proj = u_id u \<or> u_id u \<in> set (members proj)) in
                               (case redis_set (cache s1) now cacheKey
                                       (if hasAccess then ''true'' else ''false'') 3600 of
                                  Inl e \<Rightarrow> (Respond 500 ''Error validating task access'', s1)
                                | Inr c \<Rightarrow>
                                    let s2 = s1\<lparr>cache := c\<rparr> in
                                    if \<not> hasAccess then (Respond 403 ''Access denied to task'', s2)
                                    else (Next (req\<lparr>task := Some populated\<rparr>), s2))))))"

definition validateProjectOwner :: "state \<Rightarrow> request \<Rightarrow> outcome \<times> state" where
  "validateProjectOwner s req =
     (let s1 = s\<lparr>queries := queries s @ [Project_findById (projectId req)]\<rparr> in
      case projects s (projectId req) of
        None \<Rightarrow> (Respond 404 ''Project not found'', s1)
      | Some proj \<Rightarrow>
          if Some (createdBy proj) \<noteq> map_option u_id (user req)
          then (Respond 403 ''Only project owner can perform this action'', s1)
          else (Next (req\<lparr>projectDocument := Some proj\<rparr>), s1))"

text \<open>
  \<open>validateProjectMember\<close>: the user named in the body must exist with the role
  \<open>member\<close>, the requester must be the owner or an admin, and the user must not be a
  member yet. It attaches the project as \<open>req.projectDocument\<close> and the user as
  \<open>req.userDocument\<close>.
\<close>

definition validateProjectMember :: "state \<Rightarrow> request \<Rightarrow> outcome \<times> state" where
  "validateProjectMember s req =
     (let s1 = s\<lparr>queries := queries s @ [User_findById (userId req)]\<rparr>;
          invalid = (Respond 400 ''Invalid user. Only members can be added to projects'', s1) in
      case users s (userId req) of
        None \<Rightarrow> invalid
      | Some toAdd \<Rightarrow>
          if role toAdd \<noteq> Member then invalid
          else
            let s2 = s1\<lparr>queries := queries s1 @ [Project_findById (projectId req)]\<rparr> in
            (case projects s (projectId req) of
               None \<Rightarrow> (Respond 404 ''Project not found'', s2)
             | Some proj \<Rightarrow>
                 if Some (createdBy proj) \<noteq> map_option u_id (user req)
                    \<and> map_option role (user req) \<noteq> Some Admin
                 then (Respond 403 ''Only project owner or admin can add members'', s2)
                 else if userId req \<in> set (members proj)
                 then (Respond 400 ''User is already a project member'', s2)
                 else (Next (req\<lparr>projectDocument := Some proj, userDocument := Some toAdd\<rparr>), s2)))"

section \<open>Project handlers (controllers/project.controller.ts)\<close>

text \<open>
  \<open>createProject\<close>: \<open>newId\<close> is the ObjectId the driver gives the new document.
  The Project schema (models/project.model.ts) requires \<open>createdBy\<close>, so a project
  without a creator fails on save, which the catch block answers with 500. Every route
  to this handler runs \<open>authenticate\<close> first, so \<open>req.user\<close> is set there.
\<close>

definition createProject :: "state \<Rightarrow> oid \<Rightarrow> request \<Rightarrow> outcome \<times> state" where
  "createProject s newId req =
     (case user req of
        None \<Rightarrow> (Respond 500 ''Failed to create project'', s)
      | Some u \<Rightarrow>
          let proj = \<lparr>p_id = newId, createdBy = u_id u, members = [u_id u]\<rparr>;
              s1 = s\<lparr>projects := (projects s)(newId \<mapsto> proj)\<rparr> in
          (case redis_del (cache s1) ''projects:*'' of
             Inl e \<Rightarrow> (Respond 500 ''Failed to create project'', s1)
           | Inr c \<Rightarrow> (Respond 201 [], s1\<lparr>cache := c\<rparr>)))"

definition addProjectMember :: "state \<Rightarrow> request \<Rightarrow> outcome \<times> state" where
  "addProjectMember s req =
     (case (projectDocument req, userToAdd req) of
        (Some proj, Some toAdd) \<Rightarrow>
          let userToAddId = u_id toAdd;
              isMemberExists = (userToAddId \<in> set (members proj));
              proj1 = (if \<not> isMemberExists
                       then proj\<lparr>members := members proj @ [userToAddId]\<rparr> else proj);
              s1 = (if \<not> isMemberExists
                    then s\<lparr>projects := (projects s)(p_id proj \<mapsto> proj1)\<rparr> else s) in
          (case redis_del (cache s1) (''projects:user:'' @ userId_str req) of
             Inl e \<Rightarrow> (Respond 500 ''Failed to add member to project'', s1)
           | Inr c1 \<Rightarrow>
               (case redis_del c1 (''project:'' @ p_id proj @ '':*'') of
                  Inl e \<Rightarrow> (Respond 500 ''Failed to add member to project'', s1\<lparr>cache := c1\<rparr>)
                | Inr c2 \<Rightarrow>
                    (case redis_del c2 (''projects:user:'' @ userToAddId) of
                       Inl e \<Rightarrow> (Respond 500 ''Failed to add member to project'', s1\<lparr>cache := c2\<rparr>)
                     | Inr c3 \<Rightarrow> (Respond 200 ''Member added successfully'', s1\<lparr>cache := c3\<rparr>))))
      | _ \<Rightarrow> (Respond 400 ''Invalid project or user'', s))"

definition removeProjectMember :: "state \<Rightarrow> request \<Rightarrow> outcome \<times> state" where
  "removeProjectMember s req =
     (case projectDocument req of
        None \<Rightarrow> (Respond 404 ''Project not found'', s)
      | Some proj \<Rightarrow>
          let proj1 = proj\<lparr>members := filter (\<lambda>m. m \<noteq> memberId req) (members proj)\<rparr>;
              s1 = s\<lparr>projects := (projects s)(p_id proj \<mapsto> proj1)\<rparr> in
          (case redis_del (cache s1) (''projects:user:'' @ userId_str req) of
             Inl e \<Rightarrow> (Respond 500 ''Failed to remove member from project'', s1)
           | Inr c1 \<Rightarrow>
               (case redis_del c1 (''project:'' @ p_id proj @ '':*'') of
                  Inl e \<Rightarrow> (Respond 500 ''Failed to remove member from project'', s1\<lparr>cache := c1\<rparr>)
                | Inr c2 \<Rightarrow>
                    (case redis_del c2 (''projects:user:'' @ memberId req) of
                       Inl e \<Rightarrow> (Respond 500 ''Failed to remove member from project'', s1\<lparr>cache := c2\<rparr>)
                     | Inr c3 \<Rightarrow> (Respond 200 ''Member removed successfully'', s1\<lparr>cache := c3\<rparr>)))))"

section \<open>Tokens (middleware/auth.middleware.ts, controllers/auth.controller.ts)\<close>

text \<open>
  The \<open>jsonwebtoken\<close> package is a parameter of the model: \<open>sign\<close> serialises a
  payload under a secret, \<open>decode\<close> reads the payload of a well-formed token without
  checking anything (\<open>jwt.decode\<close>), and \<open>signed\<close> tells whether the signature of a
  token validates under a secret. Tokens of this service always carry \<open>iat\<close> and
  \<open>exp\<close>, in seconds.
\<close>

datatype secret = JWT_SECRET | JWT_REFRESH_SECRET

record payload =
  sub_id :: oid
  sub_role :: "TUserRole option"
  iat :: int
  exp :: int

record jwt =
  sign :: "payload \<Rightarrow> secret \<Rightarrow> string"
  decode :: "string \<Rightarrow> payload option"
  signed :: "string \<Rightarrow> secret \<Rightarrow> bool"

text \<open>
  \<open>jwt.verify\<close>: a malformed token and a bad signature raise \<open>JsonWebTokenError\<close>,
  then a token whose \<open>exp\<close> is not in the future raises \<open>TokenExpiredError\<close>.
\<close>

definition jwt_verify :: "jwt \<Rightarrow> string \<Rightarrow> secret \<Rightarrow> int \<Rightarrow> exn + payload" where
  "jwt_verify J tok sec now =
     (case decode J tok of
        None \<Rightarrow> Inl JsonWebTokenError
      | Some p \<Rightarrow>
          if \<not> signed J tok sec then Inl JsonWebTokenError
          else if exp p \<le> now then Inl TokenExpiredError
          else Inr p)"

text \<open>\<open>String.prototype.startsWith\<close> and \<open>String.prototype.split\<close> on one character.\<close>

definition startsWith :: "string \<Rightarrow> string \<Rightarrow> bool" where
  "startsWith s p = (take (length p) s = p)"

fun str_split :: "char \<Rightarrow> string \<Rightarrow> string list" where
  "str_split c [] = [[]]"
| "str_split c (x # xs) =
     (if x = c then [] # str_split c xs
      else (case str_split c xs of [] \<Rightarrow> [[x]] | w # ws \<Rightarrow> (x # w) # ws))"

text \<open>\<open>authHeader.split(' ')[1]\<close>; \<open>None\<close> is JavaScript's \<open>undefined\<close>.\<close>

definition bearerToken :: "string \<Rightarrow> string option" where
  "bearerToken authHeader =
     (case str_split CHR '' '' authHeader of a # b # rest \<Rightarrow> Some b | _ \<Rightarrow> None)"

text \<open>Truthiness of a string that may be \<open>null\<close> or \<open>undefined\<close>.\<close>

definition truthy :: "string option \<Rightarrow> bool" where
  "truthy v = (case v of None \<Rightarrow> False | Some x \<Rightarrow> x \<noteq> [])"

definition authenticate :: "jwt \<Rightarrow> state \<Rightarrow> int \<Rightarrow> request \<Rightarrow> outcome \<times> state" where
  "authenticate J s now req =
     (case authorization req of
        None \<Rightarrow> (Respond 401 ''Authorization header with Bearer token required'', s)
      | Some authHeader \<Rightarrow>
          if \<not> startsWith authHeader ''Bearer ''
          then (Respond 401 ''Authorization header with Bearer token required'', s)
          else
            (case bearerToken authHeader of
               None \<Rightarrow> (Respond 401 ''Authentication token missing'', s)
             | Some tok \<Rightarrow>
                 if tok = [] then (Respond 401 ''Authentication token missing'', s)
                 else
                   (case redis_get (cache s) now (''blacklist:'' @ tok) of
                      Inl e \<Rightarrow> (Respond 500 ''Authentication failed'', s)
                    | Inr isBlacklisted \<Rightarrow>
                        if truthy isBlacklisted
                        then (Respond 401 ''Session expired. Please login again'', s)
                        else
                          (case jwt_verify J tok JWT_SECRET now of
                             Inl e \<Rightarrow>
                               if e = TokenExpiredError
                               then (Respond 401 ''Session expired. Please login again'', s)
                               else if e = JsonWebTokenError
                               then (Respond 401 ''Invalid authentication token'', s)
                               else (Respond 500 ''Authentication failed'', s)
                           | Inr decoded \<Rightarrow>
                               let s1 = s\<lparr>queries := queries s @ [User_findById (sub_id decoded)]\<rparr> in
                               (case users s (sub_id decoded) of
                                  None \<Rightarrow> (Respond 401 ''User account not found'', s1)
                                | Some u \<Rightarrow>
                                    (Next (req\<lparr>user := Some u, token := Some tok\<rparr>), s1))))))"

text \<open>\<open>Array.prototype.join\<close>.\<close>

fun join :: "string \<Rightarrow> string list \<Rightarrow> string" where
  "join sep [] = []"
| "join sep [x] = x"
| "join sep (x # y # ys) = x @ sep @ join sep (y # ys)"

definition authorize :: "TUserRole list \<Rightarrow> request \<Rightarrow> outcome" where
  "authorize allowedRoles req =
     (case user req of
        None \<Rightarrow> Respond 403 ''Authentication required''
      | Some u \<Rightarrow>
          if role u \<notin> set allowedRoles
          then Respond 403 (''Insufficient permissions. Required role: ''
                            @ join '' or '' (map role_str allowedRoles))
          else Next req)"

text \<open>
  \<open>generateAuthTokens\<close>: \<open>expiresIn: '15m'\<close> is 900 seconds, \<open>'7d'\<close> is 604800; the
  refresh token is stored under \<open>refresh:<id>\<close> for \<open>7 * 24 * 60 * 60\<close> seconds.
  The result is the thrown exception or the token pair, with the state left behind.
\<close>

definition generateAuthTokens :: "jwt \<Rightarrow> state \<Rightarrow> int \<Rightarrow> IUser \<Rightarrow> (exn + string \<times> string) \<times> state" where
  "generateAuthTokens J s now u =
     (if u_id u = [] then (Inl Error, s)
      else
        let accessToken = sign J \<lparr>sub_id = u_id u, sub_role = Some (role u),
                                   iat = now, exp = now + 900\<rparr> JWT_SECRET;
            refreshToken = sign J \<lparr>sub_id = u_id u, sub_role = None,
                                    iat = now, exp = now + 604800\<rparr> JWT_REFRESH_SECRET in
        (case redis_set (cache s) now (''refresh:'' @ u_id u) refreshToken (7 * 24 * 60 * 60) of
           Inl e \<Rightarrow> (Inl e, s)
         | Inr c \<Rightarrow> (Inr (accessToken, refreshToken), s\<lparr>cache := c\<rparr>)))"

text \<open>
  \<open>logout\<close>: \<open>jwt.decode\<close> gives \<open>null\<close> for a token it cannot parse, and reading
  \<open>decoded.exp\<close> then throws; both deletions of \<open>Promise.all\<close> are issued.
\<close>

definition logout :: "jwt \<Rightarrow> state \<Rightarrow> int \<Rightarrow> request \<Rightarrow> outcome \<times> state" where
  "logout J s now req =
     (case (token req, user req) of
        (Some tok, Some u) \<Rightarrow>
          if tok = [] then (Respond 401 ''Not authenticated'', s)
          else
            (case decode J tok of
               None \<Rightarrow> (Respond 500 ''Failed to logout'', s)
             | Some decoded \<Rightarrow>
                 let expiresIn = exp decoded - now in
                 (case (if expiresIn > 0
                        then redis_set (cache s) now (''blacklist:'' @ tok) ''logged out'' expiresIn
                        else Inr (cache s)) of
                    Inl e \<Rightarrow> (Respond 500 ''Failed to logout'', s)
                  | Inr c1 \<Rightarrow>
                      (case redis_del c1 (''refresh:'' @ u_id u) of
                         Inl e \<Rightarrow> (Respond 500 ''Failed to logout'', s\<lparr>cache := c1\<rparr>)
                       | Inr c2 \<Rightarrow>
                           (case redis_del c2 (''user:'' @ u_id u) of
                              Inl e \<Rightarrow> (Respond 500 ''Failed to logout'', s\<lparr>cache := c2\<rparr>)
                            | Inr c3 \<Rightarrow>
                                (Respond 200 ''Logged out successfully'', s\<lparr>cache := c3\<rparr>)))))
      | _ \<Rightarrow> (Respond 401 ''Not authenticated'', s))"

section \<open>Routing (routes/*.ts, app.ts, middleware/not-found.middleware.ts)\<close>

text \<open>
  A chain of middleware: the next one runs on the request the previous one passed on,
  and an answer ends the chain.
\<close>

definition andThen ::
  "outcome \<times> state \<Rightarrow> (state \<Rightarrow> request \<Rightarrow> outcome \<times> state) \<Rightarrow> outcome \<times> state" where
  "andThen r f = (case r of (Next req, s) \<Rightarrow> f s req | (Respond st m, s) \<Rightarrow> (Respond st m, s))"

text \<open>
  \<open>router.post('/:projectId/members', validateProjectAccess, validateProjectMember,
  addProjectMember)\<close> (routes/project.route.ts), for a request that \<open>authenticate\<close> has
  let through. This is the only route to \<open>addProjectMember\<close>.
\<close>

definition post_members :: "state \<Rightarrow> int \<Rightarrow> request \<Rightarrow> outcome \<times> state" where
  "post_members s now req =
     andThen (andThen (validateProjectAccess s now req) validateProjectMember) addProjectMember"

text \<open>
  The auth router: the handler chain registered for a method and a path, \<open>None\<close> when
  no route matches and the request falls through to the not-found handler. The
  \<open>/refresh-token\<close> route is commented out in the source.
\<close>

datatype handler = H_register | H_login | H_authenticate | H_logout | H_getCurrentUser

definition auth_router :: "string \<Rightarrow> string \<Rightarrow> handler list option" where
  "auth_router method path =
     (if method = ''POST'' \<and> path = ''/register'' then Some [H_register]
      else if method = ''POST'' \<and> path = ''/login'' then Some [H_login]
      else if method = ''POST'' \<and> path = ''/logout'' then Some [H_authenticate, H_logout]
      else if method = ''GET'' \<and> path = ''/me'' then Some [H_authenticate, H_getCurrentUser]
      else None)"

definition notFoundHandler :: "string \<Rightarrow> string \<Rightarrow> outcome" where
  "notFoundHandler method path = Respond 404 (''Route '' @ method @ '' '' @ path @ '' not found'')"

text \<open>
  What each handler of the auth router does. \<open>authenticate\<close> and \<open>logout\<close> are the
  functions above; the bodies of \<open>register\<close>, \<open>login\<close> and \<open>getCurrentUser\<close> are
  not modelled and come as the parameter \<open>other\<close>.
\<close>

definition auth_handler ::
  "jwt \<Rightarrow> int \<Rightarrow> (handler \<Rightarrow> state \<Rightarrow> request \<Rightarrow> outcome \<times> state)
     \<Rightarrow> handler \<Rightarrow> state \<Rightarrow> request \<Rightarrow> outcome \<times> state" where
  "auth_handler J now other h s req =
     (if h = H_authenticate then authenticate J s now req
      else if h = H_logout then logout J s now req
      else other h s req)"

fun run_chain ::
  "(handler \<Rightarrow> state \<Rightarrow> request \<Rightarrow> outcome \<times> state)
     \<Rightarrow> handler list \<Rightarrow> state \<Rightarrow> request \<Rightarrow> outcome \<times> state" where
  "run_chain exec [] s req = (Next req, s)"
| "run_chain exec (h # hs) s req = andThen (exec h s req) (run_chain exec hs)"

text \<open>
  A request with the path \<open>/api/auth\<close> followed by \<open>path\<close> (app.ts, routes/index.ts).
  The rate limiter, whose source is not at hand, is the parameter \<open>rateLimiter\<close>; when
  it passes the request on, the auth router runs the chain registered for the method
  and the path. A request that no route has answered matches none of the other mounts
  (\<open>/projects\<close>, \<open>/health\<close>) and ends in the not-found handler, which reports the
  full path.
\<close>

definition api_auth ::
  "(state \<Rightarrow> request \<Rightarrow> outcome \<times> state) \<Rightarrow> jwt \<Rightarrow> int
     \<Rightarrow> (handler \<Rightarrow> state \<Rightarrow> request \<Rightarrow> outcome \<times> state)
     \<Rightarrow> state \<Rightarrow> string \<Rightarrow> string \<Rightarrow> request \<Rightarrow> outcome \<times> state" where
  "api_auth rateLimiter J now other s method path req =
     andThen
       (andThen (rateLimiter s req)
          (case auth_router method path of
             None \<Rightarrow> (\<lambda>s1 r. (Next r, s1))
           | Some chain \<Rightarrow> run_chain (auth_handler J now other) chain))
       (\<lambda>s2 r. (notFoundHandler method (''/api/auth'' @ path), s2))"

section \<open>Notions used in the statements\<close>

text \<open>An entry is live at a time when it exists and its \<open>EX\<close> seconds have not passed.\<close>

definition live :: "redis \<Rightarrow> int \<Rightarrow> string \<Rightarrow> bool" where
  "live r now k = (case entries r k of None \<Rightarrow> False | Some e \<Rightarrow> now < set_at e + ex e)"

text \<open>
  The decision an access check hands down: \<open>next()\<close> is allow, the 403 answer is deny,
  any other answer (401, 404, 500) is no decision.
\<close>

fun decision :: "outcome \<Rightarrow> bool option" where
  "decision (Next r) = Some True"
| "decision (Respond st m) = (if st = 403 then Some False else None)"

text \<open>The value of \<open>hasAccess\<close> in the project check.\<close>

definition project_hasAccess :: "IProject \<Rightarrow> request \<Rightarrow> bool" where
  "project_hasAccess proj req = (case user req of None \<Rightarrow> False | Some u \<Rightarrow> u_id u \<in> set (members proj))"

text \<open>
  The four ways a credential can be invalid: present in the revocation registry,
  malformed, wrongly signed, expired.
\<close>

definition revoked :: "state \<Rightarrow> int \<Rightarrow> string \<Rightarrow> bool" where
  "revoked s now tok =
     (case redis_get (cache s) now (''blacklist:'' @ tok) of Inl e \<Rightarrow> False | Inr v \<Rightarrow> truthy v)"

definition malformed :: "jwt \<Rightarrow> string \<Rightarrow> bool" where
  "malformed J tok = (decode J tok = None)"

definition bad_signature :: "jwt \<Rightarrow> string \<Rightarrow> bool" where
  "bad_signature J tok = (\<not> signed J tok JWT_SECRET)"

definition expired :: "jwt \<Rightarrow> string \<Rightarrow> int \<Rightarrow> bool" where
  "expired J tok now = (case decode J tok of None \<Rightarrow> False | Some p \<Rightarrow> exp p \<le> now)"

section \<open>A small server for the concrete cases\<close>

definition alice :: IUser where
  "alice = \<lparr>u_id = ''64a000000000000000000001'', username = ''alice'',
            email = ''alice@example.org'', role = Manager, professionRoleType = None\<rparr>"

definition bob :: IUser where
  "bob = \<lparr>u_id = ''64a000000000000000000002'', username = ''bob'',
          email = ''bob@example.org'', role = Member, professionRoleType = Some ''backend''\<rparr>"

definition apollo :: IProject where
  "apollo = \<lparr>p_id = ''64b000000000000000000001'', createdBy = u_id alice, members = [u_id alice]\<rparr>"

definition chore :: ITask where
  "chore = \<lparr>t_id = ''64c000000000000000000001'', project = p_id apollo\<rparr>"

definition server0 :: state where
  "server0 = \<lparr>cache = \<lparr>reachable = True, entries = Map.empty\<rparr>,
               projects = [p_id apollo \<mapsto> apollo],
               tasks = [t_id chore \<mapsto> chore],
               users = [u_id alice \<mapsto> alice, u_id bob \<mapsto> bob],
               queries = []\<rparr>"

definition request0 :: request where
  "request0 = \<lparr>authorization = None, projectId = p_id apollo, taskId = t_id chore,
                memberId = [], userId = [], user = None, token = None,
                projectDocument = None, userDocument = None, userToAdd = None,
                task = None\<rparr>"

definition bob_asks :: request where "bob_asks = request0\<lparr>user := Some bob\<rparr>"
definition alice_asks :: request where "alice_asks = request0\<lparr>user := Some alice\<rparr>"

definition server_down :: state where
  "server_down = server0\<lparr>cache := \<lparr>reachable = False, entries = Map.empty\<rparr>\<rparr>"

definition zeus_id :: oid where "zeus_id = ''64b000000000000000000002''"

definition alice_on_zeus :: request where
  "alice_on_zeus = alice_asks\<lparr>projectId := zeus_id, memberId := u_id alice\<rparr>"

definition zeus :: IProject where
  "zeus = \<lparr>p_id = zeus_id, createdBy = u_id alice, members = [u_id alice]\<rparr>"

definition zeus_created :: state where
  "zeus_created = snd (createProject server0 zeus_id alice_asks)"

definition zeus_checked :: state where
  "zeus_checked = snd (validateProjectOwner (snd (validateProjectAccess zeus_created 0 alice_on_zeus))
                         (alice_on_zeus\<lparr>projectDocument := Some zeus\<rparr>))"

definition zeus_left :: state where
  "zeus_left = snd (removeProjectMember zeus_checked (alice_on_zeus\<lparr>projectDocument := Some zeus\<rparr>))"



text \<open>
  A toy token library for the concrete cases: it knows three tokens of Alice, an
  access token valid from 1000 to 1900, a stale one that ran out at 900, and a refresh
  token; every other string is malformed.
\<close>

definition alice_access :: string where "alice_access = ''access.64a000000000000000000001''"
definition alice_stale :: string where "alice_stale = ''stale.64a000000000000000000001''"
definition alice_refresh :: string where "alice_refresh = ''refresh.64a000000000000000000001''"

definition toy_jwt :: jwt where
  "toy_jwt =
     \<lparr>sign = (\<lambda>p sec. (if sec = JWT_SECRET then ''access.'' else ''refresh.'') @ sub_id p),
      decode = (\<lambda>tok.
         if tok = alice_access
         then Some \<lparr>sub_id = u_id alice, sub_role = Some Manager, iat = 1000, exp = 1900\<rparr>
         else if tok = alice_stale
         then Some \<lparr>sub_id = u_id alice, sub_role = Some Manager, iat = 0, exp = 900\<rparr>
         else if tok = alice_refresh
         then Some \<lparr>sub_id = u_id alice, sub_role = None, iat = 1000, exp = 605800\<rparr>
         else None),
      signed = (\<lambda>tok sec. (sec = JWT_SECRET \<and> (tok = alice_access \<or> tok = alice_stale))
                        \<or> (sec = JWT_REFRESH_SECRET \<and> tok = alice_refresh))\<rparr>"

definition with_header :: "string \<Rightarrow> request" where
  "with_header h = request0\<lparr>authorization := Some h\<rparr>"

definition alice_session :: request where
  "alice_session = (with_header (''Bearer '' @ alice_access))\<lparr>user := Some alice, token := Some alice_access\<rparr>"

definition alice_logged_in :: state where
  "alice_logged_in = snd (generateAuthTokens toy_jwt server0 1000 alice)"

text \<open>
  Stand-ins for the two parameters of the auth dispatch: a rate limiter that lets every
  request through, and handlers that pass the request on.
\<close>

definition limiter_pass :: "state \<Rightarrow> request \<Rightarrow> outcome \<times> state" where
  "limiter_pass s req = (Next req, s)"

definition pass_on :: "handler \<Rightarrow> state \<Rightarrow> request \<Rightarrow> outcome \<times> state" where
  "pass_on h s req = (Next req, s)"

section \<open>The access checks, branch by branch\<close>

lemma PA_down: "\<not> reachable (cache s) \<Longrightarrow>
   validateProjectAccess s now req = (Respond 500 ''Error validating project access'', s)"
  by (simp add: validateProjectAccess_def redis_get_def)

lemma PA_true: "redis_get (cache s) now (project_cacheKey req) = Inr (Some ''true'') \<Longrightarrow>
   validateProjectAccess s now req = (Next req, s)"
  by (simp add: validateProjectAccess_def)

lemma PA_false: "redis_get (cache s) now (project_cacheKey req) = Inr (Some ''false'') \<Longrightarrow>
   validateProjectAccess s now req = (Respond 403 ''Access denied to project'', s)"
  by (simp add: validateProjectAccess_def)

lemma PA_miss_404: "redis_get (cache s) now (project_cacheKey req) = Inr c \<Longrightarrow>
   c \<noteq> Some ''true'' \<Longrightarrow> c \<noteq> Some ''false'' \<Longrightarrow> projects s (projectId req) = None \<Longrightarrow>
   validateProjectAccess s now req =
     (Respond 404 ''Project not found'', s\<lparr>queries := queries s @ [Project_findById (projectId req)]\<rparr>)"
  by (simp add: validateProjectAccess_def)

lemma PA_miss: "redis_get (cache s) now (project_cacheKey req) = Inr c \<Longrightarrow>
   c \<noteq> Some ''true'' \<Longrightarrow> c \<noteq> Some ''false'' \<Longrightarrow> projects s (projectId req) = Some proj \<Longrightarrow>
   validateProjectAccess s now req =
     (if project_hasAccess proj req then Next (req\<lparr>projectDocument := Some proj\<rparr>)
      else Respond 403 ''Access denied to project'',
      s\<lparr>queries := queries s @ [Project_findById (projectId req)],
        cache := (cache s)\<lparr>entries := (entries (cache s))(project_cacheKey req \<mapsto>
           \<lparr>stored = (if project_hasAccess proj req then ''true'' else ''false''), ex = 3600, set_at = now\<rparr>)\<rparr>\<rparr>)"
  by (simp add: validateProjectAccess_def redis_set_def redis_get_def project_hasAccess_def
        split: if_splits)


lemma TA_no_user: "user req = None \<or> map_option u_id (user req) = Some [] \<Longrightarrow>
   validateTaskAccess s now req = (Respond 401 ''Unauthorized'', s)"
  by (auto simp add: validateTaskAccess_def split: option.split)

lemma TA_down: "user req = Some u \<Longrightarrow> u_id u \<noteq> [] \<Longrightarrow> \<not> reachable (cache s) \<Longrightarrow>
   validateTaskAccess s now req = (Respond 500 ''Error validating task access'', s)"
  by (simp add: validateTaskAccess_def redis_get_def)






lemma redis_get_cases:
  "reachable r \<Longrightarrow> redis_get r now k = Inr (if live r now k then map_option stored (entries r k) else None)"
  by (simp add: redis_get_def live_def split: option.split)

lemma PA_served: 
  assumes "reachable (cache s)" "live (cache s) now (project_cacheKey req)"
    "map_option stored (entries (cache s) (project_cacheKey req)) = Some (if b then ''true'' else ''false'')"
  shows "validateProjectAccess s now req = (if b then Next req else Respond 403 ''Access denied to project'', s)"
proof -
  have "redis_get (cache s) now (project_cacheKey req) = Inr (Some (if b then ''true'' else ''false''))"
    using assms by (simp add: redis_get_cases)
  then show ?thesis using PA_true[of s now req] PA_false[of s now req] by (cases b) simp_all
qed

lemma PA_decided:
  assumes "decision (fst (validateProjectAccess s now req)) = Some b"
  shows "reachable (cache (snd (validateProjectAccess s now req))) \<and>
         map_option stored (entries (cache (snd (validateProjectAccess s now req))) (project_cacheKey req))
           = Some (if b then ''true'' else ''false'') \<and>
         (live (cache (snd (validateProjectAccess s now req))) now' (project_cacheKey req) \<longrightarrow>
            validateProjectAccess (snd (validateProjectAccess s now req)) now' req =
              (if b then Next req else Respond 403 ''Access denied to project'', snd (validateProjectAccess s now req)))"
proof -
  have r: "reachable (cache s)" using assms PA_down[of s now req] by (cases "reachable (cache s)") auto
  define c where "c = (if live (cache s) now (project_cacheKey req) then map_option stored (entries (cache s) (project_cacheKey req)) else None)"
  have g: "redis_get (cache s) now (project_cacheKey req) = Inr c"
    using r by (simp add: redis_get_cases c_def)
  consider (t) "c = Some ''true''" | (f) "c = Some ''false''" | (m) "c \<noteq> Some ''true''" "c \<noteq> Some ''false''"
    by blast
  then have 1: "reachable (cache (snd (validateProjectAccess s now req))) \<and>
         map_option stored (entries (cache (snd (validateProjectAccess s now req))) (project_cacheKey req))
           = Some (if b then ''true'' else ''false'')"
  proof cases
    case t
    then have "validateProjectAccess s now req = (Next req, s)" using g PA_true by simp
    then show ?thesis using assms r t by (auto simp: c_def split: if_splits)
  next
    case f
    then have "validateProjectAccess s now req = (Respond 403 ''Access denied to project'', s)" using g PA_false by simp
    then show ?thesis using assms r f by (auto simp: c_def split: if_splits)
  next
    case m
    show ?thesis
    proof (cases "projects s (projectId req)")
      case None
      then show ?thesis using PA_miss_404[OF g m None] assms by simp
    next
      case (Some proj)
      show ?thesis using PA_miss[OF g m Some] assms r by (auto split: if_splits)
    qed
  qed
  then show ?thesis using PA_served[of "snd (validateProjectAccess s now req)" now' req b] by simp
qed




text \<open>
  The project check does serve a second call from the sentinel: with a decision handed
  down and the sentinel still live, the same decision comes back and no query is sent.
\<close>

lemma project_check_idempotent:
  assumes "decision (fst (validateProjectAccess s now req)) \<noteq> None"
    and "live (cache (snd (validateProjectAccess s now req))) now' (project_cacheKey req)"
  shows "decision (fst (validateProjectAccess (snd (validateProjectAccess s now req)) now' req))
           = decision (fst (validateProjectAccess s now req)) \<and>
         queries (snd (validateProjectAccess (snd (validateProjectAccess s now req)) now' req))
           = queries (snd (validateProjectAccess s now req))"
proof -
  from assms(1) obtain b where b: "decision (fst (validateProjectAccess s now req)) = Some b"
    by auto
  from PA_decided[OF b, of now'] assms(2)
  have e: "validateProjectAccess (snd (validateProjectAccess s now req)) now' req =
      (if b then Next req else Respond 403 ''Access denied to project'',
       snd (validateProjectAccess s now req))"
    by simp
  show ?thesis by (simp add: e b)
qed

text \<open>
  The route to \<open>addProjectMember\<close>: a request arrives without \<open>userToAdd\<close>, neither
  middleware sets it, and the handler answers 400 without touching the projects.
\<close>

lemma addProjectMember_without_userToAdd:
  "userToAdd req = None \<Longrightarrow> addProjectMember s req = (Respond 400 ''Invalid project or user'', s)"
  by (simp add: addProjectMember_def split: option.split)

lemma PA_projects: "projects (snd (validateProjectAccess s now req)) = projects s"
  by (simp add: validateProjectAccess_def Let_def split: sum.split option.split)

lemma PA_userToAdd:
  "fst (validateProjectAccess s now req) = Next r \<Longrightarrow> userToAdd r = userToAdd req"
  by (auto simp add: validateProjectAccess_def Let_def split: sum.splits option.splits if_splits)

lemma PM_projects: "projects (snd (validateProjectMember s req)) = projects s"
  by (simp add: validateProjectMember_def Let_def split: option.split)

lemma PM_userToAdd:
  "fst (validateProjectMember s req) = Next r \<Longrightarrow> userToAdd r = userToAdd req"
  by (auto simp add: validateProjectMember_def Let_def split: option.splits if_splits)

lemma post_members_adds_nobody:
  assumes "userToAdd req = None"
  shows "projects (snd (post_members s now req)) = projects s \<and>
         fst (post_members s now req) \<noteq> Respond 200 ''Member added successfully''"
proof (cases "validateProjectAccess s now req")
  case (Pair o1 s1)
  have p1: "projects s1 = projects s" using PA_projects[of s now req] Pair by simp
  show ?thesis
  proof (cases o1)
    case (Respond st m)
    then show ?thesis using Pair p1
      by (auto simp: post_members_def andThen_def validateProjectAccess_def Let_def
            split: sum.splits option.splits if_splits)
  next
    case (Next r1)
    have u1: "userToAdd r1 = None" using PA_userToAdd[of s now req r1] Pair Next assms by simp
    show ?thesis
    proof (cases "validateProjectMember s1 r1")
      case (Pair o2 s2)
      note P2 = this
      have p2: "projects s2 = projects s" using PM_projects[of s1 r1] P2 p1 by simp
      show ?thesis
      proof (cases o2)
        case (Respond st m)
        then show ?thesis using \<open>validateProjectAccess s now req = (o1, s1)\<close> Next P2 p2
          by (auto simp: post_members_def andThen_def validateProjectMember_def Let_def
                split: option.splits if_splits)
      next
        case (Next r2)
        have u2: "userToAdd r2 = None" using PM_userToAdd[of s1 r1 r2] P2 Next u1 by simp
        show ?thesis
          using \<open>validateProjectAccess s now req = (o1, s1)\<close> \<open>o1 = Next r1\<close> P2 Next p2
            addProjectMember_without_userToAdd[OF u2, of s2]
          by (simp add: post_members_def andThen_def)
      qed
    qed
  qed
qed

section \<open>Token checks, branch by branch\<close>

lemma authenticate_revoked:
  assumes "authorization req = Some h" "startsWith h ''Bearer ''" "bearerToken h = Some tok" "tok \<noteq> []"
    and "redis_get (cache s) now (''blacklist:'' @ tok) = Inr v" "truthy v"
  shows "authenticate J s now req = (Respond 401 ''Session expired. Please login again'', s)"
  using assms by (simp add: authenticate_def)

lemma authenticate_verify:
  assumes "authorization req = Some h" "startsWith h ''Bearer ''" "bearerToken h = Some tok" "tok \<noteq> []"
    and "redis_get (cache s) now (''blacklist:'' @ tok) = Inr v" "\<not> truthy v"
    and "jwt_verify J tok JWT_SECRET now = Inl e"
  shows "authenticate J s now req =
     (if e = TokenExpiredError then Respond 401 ''Session expired. Please login again''
      else if e = JsonWebTokenError then Respond 401 ''Invalid authentication token''
      else Respond 500 ''Authentication failed'', s)"
  using assms by (simp add: authenticate_def)

lemma jwt_verify_invalid:
  "malformed J tok \<or> bad_signature J tok \<or> expired J tok now \<Longrightarrow>
   jwt_verify J tok JWT_SECRET now =
     Inl (if \<not> malformed J tok \<and> \<not> bad_signature J tok then TokenExpiredError else JsonWebTokenError)"
  by (auto simp: jwt_verify_def malformed_def bad_signature_def expired_def split: option.splits)

lemma logout_ok:
  assumes "reachable (cache s)" "token req = Some tok" "tok \<noteq> []" "user req = Some u"
    and "decode J tok = Some p" "now < exp p"
  shows "logout J s now req =
     (Respond 200 ''Logged out successfully'',
      s\<lparr>cache := (cache s)\<lparr>entries := ((entries (cache s))
           (''blacklist:'' @ tok \<mapsto> \<lparr>stored = ''logged out'', ex = exp p - now, set_at = now\<rparr>,
            ''refresh:'' @ u_id u := None, ''user:'' @ u_id u := None))\<rparr>\<rparr>)"
  using assms by (simp add: logout_def redis_set_def redis_del_def)

section \<open>Claims\<close>


text \<open>
  C6, as the code has it. When the cache store is unreachable the access check does not
  fall back on the datastore: the rejected \<open>get\<close> lands in the catch block, the check
  answers 500 (the task check answers 401 first when no identity is attached), and the
  state, the list of datastore queries included, is left as it was. The answer is
  neither allow nor deny.
\<close>

theorem cache_unreachable_is_internal_failure:
  "\<not> reachable (cache s) \<Longrightarrow>
     validateProjectAccess s now req = (Respond 500 ''Error validating project access'', s) \<and>
     validateTaskAccess s now req =
       (if user req = None \<or> map_option u_id (user req) = Some []
        then Respond 401 ''Unauthorized''
        else Respond 500 ''Error validating task access'', s)"
proof
  assume d: "\<not> reachable (cache s)"
  then show "validateProjectAccess s now req = (Respond 500 ''Error validating project access'', s)"
    by (rule PA_down)
  show "validateTaskAccess s now req =
          (if user req = None \<or> map_option u_id (user req) = Some []
           then Respond 401 ''Unauthorized''
           else Respond 500 ''Error validating task access'', s)"
  proof (cases "user req = None \<or> map_option u_id (user req) = Some []")
    case True
    then show ?thesis using TA_no_user[OF True] by simp
  next
    case False
    then obtain u where "user req = Some u" "u_id u \<noteq> []" by auto
    then show ?thesis using TA_down[OF _ _ d] False by simp
  qed
qed

theorem cache_unreachable_is_internal_failure_witness:
  "\<not> reachable (cache server_down) \<and>
   validateProjectAccess server_down 0 alice_asks
     = (Respond 500 ''Error validating project access'', server_down) \<and>
   validateTaskAccess server_down 0 alice_asks
     = (Respond 500 ''Error validating task access'', server_down)"
proof -
  have h: "\<not> reachable (cache server_down)" by (simp add: server_down_def)
  have u: "user alice_asks = Some alice" "u_id alice \<noteq> []" by (simp_all add: alice_def
        bob_def apollo_def chore_def server0_def request0_def bob_asks_def alice_asks_def)
  show ?thesis using cache_unreachable_is_internal_failure[OF h, of 0 alice_asks] h u by simp
qed

text \<open>
  C6 as stated fails: with the cache store unreachable, a member of the project is
  answered 500 although the datastore would grant access.
\<close>

theorem cache_unreachable_counterexample:
  "project_hasAccess apollo alice_asks \<and>
   projects server_down (projectId alice_asks) = Some apollo \<and>
   validateProjectAccess server_down 0 alice_asks
     = (Respond 500 ''Error validating project access'', server_down)"
  by (simp add: server_down_def alice_def bob_def apollo_def chore_def server0_def request0_def
        bob_asks_def alice_asks_def validateProjectAccess_def validateTaskAccess_def
        project_cacheKey_def task_cacheKey_def userId_str_def redis_get_def redis_set_def
        redis_del_def project_hasAccess_def)



text \<open>
  C9. A project made by \<open>createProject\<close> is stored with its creator as \<open>createdBy\<close>
  and as the one element of \<open>members\<close>; on a cache miss the project check, which
  looks at \<open>members\<close> only, lets the creator through.
\<close>

theorem creator_is_member:
  "user req = Some u \<Longrightarrow>
     projects (snd (createProject s newId req)) newId
       = Some \<lparr>p_id = newId, createdBy = u_id u, members = [u_id u]\<rparr> \<and>
     (projectId req' = newId \<and> user req' = Some u \<and>
      redis_get (cache (snd (createProject s newId req))) now (project_cacheKey req') = Inr None \<longrightarrow>
        fst (validateProjectAccess (snd (createProject s newId req)) now req')
          = Next (req'\<lparr>projectDocument :=
                      Some \<lparr>p_id = newId, createdBy = u_id u, members = [u_id u]\<rparr>\<rparr>))"
proof
  assume u: "user req = Some u"
  then show p: "projects (snd (createProject s newId req)) newId
       = Some \<lparr>p_id = newId, createdBy = u_id u, members = [u_id u]\<rparr>"
    by (simp add: createProject_def redis_del_def Let_def split: sum.split)
  show "projectId req' = newId \<and> user req' = Some u \<and>
      redis_get (cache (snd (createProject s newId req))) now (project_cacheKey req') = Inr None \<longrightarrow>
        fst (validateProjectAccess (snd (createProject s newId req)) now req')
          = Next (req'\<lparr>projectDocument :=
                      Some \<lparr>p_id = newId, createdBy = u_id u, members = [u_id u]\<rparr>\<rparr>)"
  proof
    assume a: "projectId req' = newId \<and> user req' = Some u \<and>
      redis_get (cache (snd (createProject s newId req))) now (project_cacheKey req') = Inr None"
    then have g: "redis_get (cache (snd (createProject s newId req))) now (project_cacheKey req') = Inr None"
      by simp
    have q: "projects (snd (createProject s newId req)) (projectId req')
       = Some \<lparr>p_id = newId, createdBy = u_id u, members = [u_id u]\<rparr>"
      using p a by simp
    have h: "project_hasAccess \<lparr>p_id = newId, createdBy = u_id u, members = [u_id u]\<rparr> req'"
      using a by (simp add: project_hasAccess_def)
    show "fst (validateProjectAccess (snd (createProject s newId req)) now req')
          = Next (req'\<lparr>projectDocument :=
                      Some \<lparr>p_id = newId, createdBy = u_id u, members = [u_id u]\<rparr>\<rparr>)"
      using PA_miss[OF g _ _ q] h by simp
  qed
qed

theorem creator_is_member_witness:
  "user alice_asks = Some alice \<and>
   projects zeus_created zeus_id = Some zeus \<and>
   projectId alice_on_zeus = zeus_id \<and> user alice_on_zeus = Some alice \<and>
   redis_get (cache zeus_created) 0 (project_cacheKey alice_on_zeus) = Inr None \<and>
   fst (validateProjectAccess zeus_created 0 alice_on_zeus)
     = Next (alice_on_zeus\<lparr>projectDocument := Some zeus\<rparr>)"
proof -
  have h: "user alice_asks = Some alice" by (simp add: alice_def bob_def apollo_def chore_def
        server0_def request0_def bob_asks_def alice_asks_def)
  have a: "projectId alice_on_zeus = zeus_id \<and> user alice_on_zeus = Some alice \<and>
    redis_get (cache (snd (createProject server0 zeus_id alice_asks))) 0 (project_cacheKey alice_on_zeus) = Inr None"
    by (simp add: alice_def bob_def apollo_def chore_def server0_def request0_def bob_asks_def
          alice_asks_def zeus_id_def alice_on_zeus_def zeus_def zeus_created_def
          createProject_def validateProjectAccess_def validateTaskAccess_def
          project_cacheKey_def task_cacheKey_def userId_str_def redis_get_def redis_set_def
          redis_del_def)
  from creator_is_member[OF h, of server0 zeus_id alice_on_zeus 0] a h
  show ?thesis by (simp add: zeus_created_def zeus_def)
qed

text \<open>
  C5 fails on the project check, which reads \<open>members\<close> and never \<open>createdBy\<close>
  (its comment says "creator or member", and the task check does test both). Alice
  creates a project, passes the access and owner checks of the member-removal route,
  and removes herself from the members; she is still \<open>createdBy\<close>. Once the cached
  allow has run out, the next check is a miss, and it stores and answers deny.
\<close>

theorem owner_outside_members_is_denied:
  "fst (createProject server0 zeus_id alice_asks) = Respond 201 [] \<and>
   fst (validateProjectAccess zeus_created 0 alice_on_zeus)
     = Next (alice_on_zeus\<lparr>projectDocument := Some zeus\<rparr>) \<and>
   fst (validateProjectOwner (snd (validateProjectAccess zeus_created 0 alice_on_zeus))
          (alice_on_zeus\<lparr>projectDocument := Some zeus\<rparr>))
     = Next (alice_on_zeus\<lparr>projectDocument := Some zeus\<rparr>) \<and>
   fst (removeProjectMember zeus_checked (alice_on_zeus\<lparr>projectDocument := Some zeus\<rparr>))
     = Respond 200 ''Member removed successfully'' \<and>
   projects zeus_left zeus_id = Some \<lparr>p_id = zeus_id, createdBy = u_id alice, members = []\<rparr> \<and>
   fst (validateProjectAccess zeus_left 3600 alice_on_zeus)
     = Respond 403 ''Access denied to project'' \<and>
   entries (cache (snd (validateProjectAccess zeus_left 3600 alice_on_zeus)))
       (project_cacheKey alice_on_zeus)
     = Some \<lparr>stored = ''false'', ex = 3600, set_at = 3600\<rparr>"
  by (simp add: alice_def bob_def apollo_def chore_def server0_def request0_def bob_asks_def
        alice_asks_def zeus_id_def alice_on_zeus_def zeus_def zeus_created_def zeus_checked_def
        zeus_left_def createProject_def validateProjectOwner_def removeProjectMember_def
        validateProjectAccess_def validateTaskAccess_def project_cacheKey_def task_cacheKey_def
        userId_str_def redis_get_def redis_set_def redis_del_def)


text \<open>
  C2. Logging out with a token that has not run out stores the entry
  \<open>blacklist:<token>\<close> with \<open>EX\<close> equal to the remaining lifetime (\<open>exp\<close> minus the
  current time), and from then until \<open>exp\<close> every \<open>authenticate\<close> of that token is
  answered 401, whatever its signature and expiry say.
\<close>

theorem logout_revokes_at_once:
  assumes "reachable (cache s)"
    and "token req = Some tok" "tok \<noteq> []" "user req = Some u"
    and "decode J tok = Some p" "now \<le> now'" "now' < exp p"
    and "authorization req' = Some h" "startsWith h ''Bearer ''" "bearerToken h = Some tok"
  shows "fst (logout J s now req) = Respond 200 ''Logged out successfully'' \<and>
         entries (cache (snd (logout J s now req))) (''blacklist:'' @ tok)
           = Some \<lparr>stored = ''logged out'', ex = exp p - now, set_at = now\<rparr> \<and>
         authenticate J (snd (logout J s now req)) now' req'
           = (Respond 401 ''Session expired. Please login again'', snd (logout J s now req))"
proof -
  have lt: "now < exp p" using assms(6,7) by simp
  note l = logout_ok[OF assms(1-5) lt]
  have e: "entries (cache (snd (logout J s now req))) (''blacklist:'' @ tok)
           = Some \<lparr>stored = ''logged out'', ex = exp p - now, set_at = now\<rparr>"
    by (simp add: l)
  have r: "reachable (cache (snd (logout J s now req)))" using assms(1) by (simp add: l)
  have g: "redis_get (cache (snd (logout J s now req))) now' (''blacklist:'' @ tok) = Inr (Some ''logged out'')"
    using r e assms(7) by (simp add: redis_get_def)
  have t: "truthy (Some ''logged out'')" by (simp add: truthy_def)
  show ?thesis using l e authenticate_revoked[OF assms(8-10) assms(3) g t] by simp
qed

theorem logout_revokes_at_once_witness:
  "fst (authenticate toy_jwt server0 1000 (with_header (''Bearer '' @ alice_access))) = Next alice_session \<and>
   fst (logout toy_jwt server0 1000 alice_session) = Respond 200 ''Logged out successfully'' \<and>
   entries (cache (snd (logout toy_jwt server0 1000 alice_session))) (''blacklist:'' @ alice_access)
     = Some \<lparr>stored = ''logged out'', ex = 900, set_at = 1000\<rparr> \<and>
   fst (authenticate toy_jwt (snd (logout toy_jwt server0 1000 alice_session)) 1000
          (with_header (''Bearer '' @ alice_access)))
     = Respond 401 ''Session expired. Please login again''"
proof -
  have r: "reachable (cache server0)" by (simp add: alice_def bob_def apollo_def chore_def
        server0_def request0_def bob_asks_def alice_asks_def)
  have a: "token alice_session = Some alice_access" "alice_access \<noteq> []" "user alice_session = Some alice"
    "decode toy_jwt alice_access = Some \<lparr>sub_id = u_id alice, sub_role = Some Manager, iat = 1000, exp = 1900\<rparr>"
    by (simp_all add: alice_session_def alice_access_def alice_stale_def alice_refresh_def
          toy_jwt_def with_header_def alice_def bob_def apollo_def chore_def server0_def
          request0_def bob_asks_def alice_asks_def)
  have t: "(1000::int) \<le> 1000"
    "1000 < exp \<lparr>sub_id = u_id alice, sub_role = Some Manager, iat = 1000, exp = 1900\<rparr>" by simp_all
  have h: "authorization (with_header (''Bearer '' @ alice_access)) = Some (''Bearer '' @ alice_access)"
    "startsWith (''Bearer '' @ alice_access) ''Bearer ''"
    "bearerToken (''Bearer '' @ alice_access) = Some alice_access"
    by (simp_all add: alice_access_def alice_stale_def alice_refresh_def toy_jwt_def
          with_header_def alice_def bob_def apollo_def chore_def server0_def request0_def
          bob_asks_def alice_asks_def startsWith_def bearerToken_def)
  have b: "fst (authenticate toy_jwt server0 1000 (with_header (''Bearer '' @ alice_access))) = Next alice_session"
    by (simp add: alice_session_def alice_access_def alice_stale_def alice_refresh_def
          toy_jwt_def with_header_def alice_def bob_def apollo_def chore_def server0_def
          request0_def bob_asks_def alice_asks_def authenticate_def startsWith_def
          bearerToken_def truthy_def jwt_verify_def redis_get_def redis_set_def redis_del_def)
  show ?thesis using logout_revokes_at_once[OF r a t h] b by simp
qed

text \<open>
  C3, as the code has it. While the cache store is reachable, every invalid credential
  (revoked, malformed, wrongly signed or expired) is answered 401 and nothing else
  happens; the message is "Session expired. Please login again" for a revoked or an
  expired token and "Invalid authentication token" for a malformed or wrongly signed one.
\<close>

theorem invalid_credential_is_401:
  assumes "reachable (cache s)"
    and "authorization req = Some h" "startsWith h ''Bearer ''" "bearerToken h = Some tok" "tok \<noteq> []"
    and "revoked s now tok \<or> malformed J tok \<or> bad_signature J tok \<or> expired J tok now"
  shows "authenticate J s now req =
     (Respond 401 (if revoked s now tok \<or> (\<not> malformed J tok \<and> \<not> bad_signature J tok)
                   then ''Session expired. Please login again''
                   else ''Invalid authentication token''), s)"
proof -
  obtain v where v: "redis_get (cache s) now (''blacklist:'' @ tok) = Inr v"
    using assms(1) by (simp add: redis_get_def)
  show ?thesis
  proof (cases "truthy v")
    case True
    then have "revoked s now tok" using v by (simp add: revoked_def)
    then show ?thesis using authenticate_revoked[OF assms(2-5) v True] by simp
  next
    case False
    then have r: "\<not> revoked s now tok" using v by (simp add: revoked_def)
    with assms(6) have i: "malformed J tok \<or> bad_signature J tok \<or> expired J tok now" by simp
    show ?thesis
      using authenticate_verify[OF assms(2-5) v False jwt_verify_invalid[OF i]] r by simp
  qed
qed


theorem invalid_credential_is_401_witness:
  "reachable (cache server0) \<and>
   bearerToken (''Bearer '' @ alice_stale) = Some alice_stale \<and>
   expired toy_jwt alice_stale 1000 \<and>
   authenticate toy_jwt server0 1000 (with_header (''Bearer '' @ alice_stale))
     = (Respond 401 ''Session expired. Please login again'', server0) \<and>
   bearerToken ''Bearer garbage'' = Some ''garbage'' \<and>
   malformed toy_jwt ''garbage'' \<and>
   authenticate toy_jwt server0 1000 (with_header ''Bearer garbage'')
     = (Respond 401 ''Invalid authentication token'', server0)"
proof -
  have r: "reachable (cache server0)" by (simp add: alice_def bob_def apollo_def chore_def
        server0_def request0_def bob_asks_def alice_asks_def)
  have a: "authorization (with_header (''Bearer '' @ alice_stale)) = Some (''Bearer '' @ alice_stale)"
    "startsWith (''Bearer '' @ alice_stale) ''Bearer ''"
    "bearerToken (''Bearer '' @ alice_stale) = Some alice_stale" "alice_stale \<noteq> []"
    by (simp_all add: alice_access_def alice_stale_def alice_refresh_def toy_jwt_def
          with_header_def alice_def bob_def apollo_def chore_def server0_def request0_def
          bob_asks_def alice_asks_def startsWith_def bearerToken_def)
  have x: "expired toy_jwt alice_stale 1000" "\<not> malformed toy_jwt alice_stale"
    "\<not> bad_signature toy_jwt alice_stale"
    by (simp_all add: alice_access_def alice_stale_def alice_refresh_def toy_jwt_def
          with_header_def expired_def malformed_def bad_signature_def)
  have b: "authorization (with_header ''Bearer garbage'') = Some ''Bearer garbage''"
    "startsWith ''Bearer garbage'' ''Bearer ''"
    "bearerToken ''Bearer garbage'' = Some ''garbage''" "''garbage'' \<noteq> []"
    by (simp_all add: alice_access_def alice_stale_def alice_refresh_def toy_jwt_def
          with_header_def alice_def bob_def apollo_def chore_def server0_def request0_def
          bob_asks_def alice_asks_def startsWith_def bearerToken_def)
  have m: "malformed toy_jwt ''garbage''" "\<not> revoked server0 1000 ''garbage''"
    by (simp_all add: alice_access_def alice_stale_def alice_refresh_def toy_jwt_def
          with_header_def malformed_def revoked_def redis_get_def truthy_def alice_def bob_def
          apollo_def chore_def server0_def request0_def bob_asks_def alice_asks_def)
  have 1: "authenticate toy_jwt server0 1000 (with_header (''Bearer '' @ alice_stale))
     = (Respond 401 ''Session expired. Please login again'', server0)"
    using invalid_credential_is_401[OF r a, of 1000 toy_jwt] x by simp
  have 2: "authenticate toy_jwt server0 1000 (with_header ''Bearer garbage'')
     = (Respond 401 ''Invalid authentication token'', server0)"
    using invalid_credential_is_401[OF r b, of 1000 toy_jwt] m by simp
  show ?thesis using r a(3) x(1) 1 b(3) m(1) 2 by simp
qed

text \<open>
  C3 as stated fails: a malformed token and an expired token are both answered 401,
  but with different messages, so the answer tells which check failed.
\<close>

theorem generic_outcome_counterexample:
  "malformed toy_jwt ''garbage'' \<and>
   fst (authenticate toy_jwt server0 1000 (with_header ''Bearer garbage''))
     = Respond 401 ''Invalid authentication token'' \<and>
   expired toy_jwt alice_stale 1000 \<and>
   fst (authenticate toy_jwt server0 1000 (with_header (''Bearer '' @ alice_stale)))
     = Respond 401 ''Session expired. Please login again'' \<and>
   fst (authenticate toy_jwt server0 1000 (with_header ''Bearer garbage''))
     \<noteq> fst (authenticate toy_jwt server0 1000 (with_header (''Bearer '' @ alice_stale)))"
  by (simp add: alice_access_def alice_stale_def alice_refresh_def toy_jwt_def with_header_def
        alice_def bob_def apollo_def chore_def server0_def request0_def bob_asks_def
        alice_asks_def authenticate_def startsWith_def bearerToken_def truthy_def jwt_verify_def
        redis_get_def redis_set_def redis_del_def malformed_def expired_def)

text \<open>
  C4, as the code has it. There is no refresh operation: a \<open>POST\<close> to
  \<open>/api/auth/refresh-token\<close> that the rate limiter lets through matches no route and is
  answered 404 by the not-found handler, whatever it carries, with the state as the
  limiter left it. Token issuance, \<open>generateAuthTokens\<close>, returns an access
  token for 900 seconds and a refresh token for 604800, the latter stored under
  \<open>refresh:<id>\<close> over any earlier record, so that reading the record gives exactly
  this refresh token for the next 604800 seconds and nothing after; no other key changes.
\<close>

theorem no_refresh_route_issuance_writes_registry:
  "(rateLimiter s req = (Next r, s1) \<longrightarrow>
      api_auth rateLimiter J now other s ''POST'' ''/refresh-token'' req
        = (Respond 404 ''Route POST /api/auth/refresh-token not found'', s1))
   \<and>
   (reachable (cache s) \<and> u_id u \<noteq> [] \<longrightarrow>
      fst (generateAuthTokens J s now u)
        = Inr (sign J \<lparr>sub_id = u_id u, sub_role = Some (role u), iat = now, exp = now + 900\<rparr>
                 JWT_SECRET,
               sign J \<lparr>sub_id = u_id u, sub_role = None, iat = now, exp = now + 604800\<rparr>
                 JWT_REFRESH_SECRET) \<and>
      (now \<le> t \<longrightarrow>
         redis_get (cache (snd (generateAuthTokens J s now u))) t (''refresh:'' @ u_id u)
           = Inr (if t < now + 604800
                  then Some (sign J \<lparr>sub_id = u_id u, sub_role = None, iat = now,
                                      exp = now + 604800\<rparr> JWT_REFRESH_SECRET)
                  else None)) \<and>
      (k \<noteq> ''refresh:'' @ u_id u \<longrightarrow>
         entries (cache (snd (generateAuthTokens J s now u))) k = entries (cache s) k))"
proof (intro conjI impI)
  assume "rateLimiter s req = (Next r, s1)"
  then show "api_auth rateLimiter J now other s ''POST'' ''/refresh-token'' req
        = (Respond 404 ''Route POST /api/auth/refresh-token not found'', s1)"
    by (simp add: api_auth_def andThen_def auth_router_def notFoundHandler_def)
next
  assume a: "reachable (cache s) \<and> u_id u \<noteq> []"
  then show "fst (generateAuthTokens J s now u)
        = Inr (sign J \<lparr>sub_id = u_id u, sub_role = Some (role u), iat = now, exp = now + 900\<rparr>
                 JWT_SECRET,
               sign J \<lparr>sub_id = u_id u, sub_role = None, iat = now, exp = now + 604800\<rparr>
                 JWT_REFRESH_SECRET)"
    by (simp add: generateAuthTokens_def redis_set_def Let_def)
  show "redis_get (cache (snd (generateAuthTokens J s now u))) t (''refresh:'' @ u_id u)
           = Inr (if t < now + 604800
                  then Some (sign J \<lparr>sub_id = u_id u, sub_role = None, iat = now,
                                      exp = now + 604800\<rparr> JWT_REFRESH_SECRET)
                  else None)"
    using a by (simp add: generateAuthTokens_def redis_set_def redis_get_def Let_def)
  show "entries (cache (snd (generateAuthTokens J s now u))) k = entries (cache s) k"
    if "k \<noteq> ''refresh:'' @ u_id u"
    using a that by (simp add: generateAuthTokens_def redis_set_def Let_def)
qed

theorem no_refresh_route_issuance_writes_registry_witness:
  "limiter_pass alice_logged_in request0 = (Next request0, alice_logged_in) \<and>
   api_auth limiter_pass toy_jwt 2000 pass_on alice_logged_in ''POST'' ''/refresh-token'' request0
     = (Respond 404 ''Route POST /api/auth/refresh-token not found'', alice_logged_in) \<and>
   reachable (cache server0) \<and> u_id alice \<noteq> [] \<and>
   fst (generateAuthTokens toy_jwt server0 1000 alice) = Inr (alice_access, alice_refresh) \<and>
   redis_get (cache alice_logged_in) 2000 (''refresh:'' @ u_id alice) = Inr (Some alice_refresh) \<and>
   redis_get (cache alice_logged_in) 605800 (''refresh:'' @ u_id alice) = Inr None \<and>
   entries (cache alice_logged_in) (''refresh:'' @ u_id bob)
     = entries (cache server0) (''refresh:'' @ u_id bob)"
proof -
  have l: "limiter_pass alice_logged_in request0 = (Next request0, alice_logged_in)"
    by (simp add: limiter_pass_def)
  have r: "reachable (cache server0) \<and> u_id alice \<noteq> []"
    by (simp add: server0_def alice_def)
  have k: "''refresh:'' @ u_id bob \<noteq> ''refresh:'' @ u_id alice"
    by (simp add: alice_def bob_def)
  have s: "sign toy_jwt \<lparr>sub_id = u_id alice, sub_role = Some (role alice), iat = 1000,
                           exp = 1000 + 900\<rparr> JWT_SECRET = alice_access"
    "sign toy_jwt \<lparr>sub_id = u_id alice, sub_role = None, iat = 1000,
                    exp = 1000 + 604800\<rparr> JWT_REFRESH_SECRET = alice_refresh"
    by (simp_all add: toy_jwt_def alice_access_def alice_refresh_def alice_def)
  note t1 = no_refresh_route_issuance_writes_registry[where rateLimiter=limiter_pass
      and s=alice_logged_in and req=request0 and r=request0 and ?s1.0=alice_logged_in
      and J=toy_jwt and now=2000 and other=pass_on]
  note t2 = no_refresh_route_issuance_writes_registry[where s=server0 and u=alice
      and J=toy_jwt and now=1000 and t=2000 and k="''refresh:'' @ u_id bob"]
  note t3 = no_refresh_route_issuance_writes_registry[where s=server0 and u=alice
      and J=toy_jwt and now=1000 and t=605800]
  have 1: "api_auth limiter_pass toy_jwt 2000 pass_on alice_logged_in ''POST'' ''/refresh-token'' request0
     = (Respond 404 ''Route POST /api/auth/refresh-token not found'', alice_logged_in)"
    using t1 l by blast
  have 2: "fst (generateAuthTokens toy_jwt server0 1000 alice) = Inr (alice_access, alice_refresh)"
    using t2 r s by simp
  have 3: "redis_get (cache alice_logged_in) 2000 (''refresh:'' @ u_id alice) = Inr (Some alice_refresh)"
    using t2 r s by (simp add: alice_logged_in_def)
  have 4: "redis_get (cache alice_logged_in) 605800 (''refresh:'' @ u_id alice) = Inr None"
    using t3 r s by (simp add: alice_logged_in_def)
  have 5: "entries (cache alice_logged_in) (''refresh:'' @ u_id bob)
     = entries (cache server0) (''refresh:'' @ u_id bob)"
    using t2 r k by (simp add: alice_logged_in_def)
  show ?thesis using l 1 r 2 3 4 5 by blast
qed

text \<open>
  C4 as stated fails: with Alice's refresh token correctly signed and on record, the
  refresh request is answered 404 and the state is unchanged; no token pair comes back.
\<close>

theorem refresh_request_counterexample:
  "signed toy_jwt alice_refresh JWT_REFRESH_SECRET \<and>
   redis_get (cache alice_logged_in) 2000 (''refresh:'' @ u_id alice) = Inr (Some alice_refresh) \<and>
   api_auth limiter_pass toy_jwt 2000 pass_on alice_logged_in ''POST'' ''/refresh-token'' request0
     = (Respond 404 ''Route POST /api/auth/refresh-token not found'', alice_logged_in)"
  by (simp add: api_auth_def andThen_def auth_router_def notFoundHandler_def limiter_pass_def
        alice_logged_in_def generateAuthTokens_def redis_set_def redis_get_def
        server0_def alice_def toy_jwt_def alice_refresh_def Let_def)

text \<open>
  C10. The role gate answers 403 when no identity is attached and when the role of the
  attached identity is not among the allowed ones; it never answers 401.
\<close>

theorem authorize_rejects_with_403:
  "(user req = None \<longrightarrow> authorize allowedRoles req = Respond 403 ''Authentication required'') \<and>
   (user req = Some u \<and> role u \<notin> set allowedRoles \<longrightarrow>
      authorize allowedRoles req =
        Respond 403 (''Insufficient permissions. Required role: ''
                     @ join '' or '' (map role_str allowedRoles))) \<and>
   authorize allowedRoles req \<noteq> Respond 401 m"
  by (simp add: authorize_def split: option.split)

theorem authorize_rejects_with_403_witness:
  "user request0 = None \<and>
   authorize [Admin, Manager] request0 = Respond 403 ''Authentication required'' \<and>
   user bob_asks = Some bob \<and> role bob \<notin> set [Admin, Manager] \<and>
   authorize [Admin, Manager] bob_asks
     = Respond 403 ''Insufficient permissions. Required role: admin or manager'' \<and>
   authorize [Admin, Manager] alice_asks = Next alice_asks"
proof -
  have a: "user request0 = None" by (simp add: alice_def bob_def apollo_def chore_def
        server0_def request0_def bob_asks_def alice_asks_def)
  have b: "user bob_asks = Some bob \<and> role bob \<notin> set [Admin, Manager]" by (simp add:
        alice_def bob_def apollo_def chore_def server0_def request0_def bob_asks_def
        alice_asks_def)
  have c: "authorize [Admin, Manager] alice_asks = Next alice_asks"
    by (simp add: authorize_def alice_def bob_def apollo_def chore_def server0_def request0_def
          bob_asks_def alice_asks_def)
  from authorize_rejects_with_403[where req=request0 and allowedRoles="[Admin, Manager]"] a
  have 1: "authorize [Admin, Manager] request0 = Respond 403 ''Authentication required''" by blast
  from authorize_rejects_with_403[where req=bob_asks and u=bob and allowedRoles="[Admin, Manager]"] b
  have 2: "authorize [Admin, Manager] bob_asks =
        Respond 403 (''Insufficient permissions. Required role: ''
                     @ join '' or '' (map role_str [Admin, Manager]))" by blast
  show ?thesis using a b c 1 2 by simp
qed



end
